theory Spec2Isabelle
  imports Complex_Main "HOL-Library.Sublist" "HOL-Library.Log_Nat"
begin

section \<open>The autonomous-AI hook (src/hooks/useAutonomousAI.ts)\<close>

text \<open>
  The hook is a React effect over three upstream payloads. Its numbers are JavaScript
  numbers, that is binary64 values. A score, a volatility or a noise is the \<open>real\<close> that
  such a value denotes; the numbers that the notification renders are \<open>int\<close>. The
  difference of two scores is rounded as JavaScript rounds it and is compared with the
  binary64 value of the literal \<open>0.3\<close>. The ratio of the two counts is kept exact: the
  noise values that the properties below speak of, 0, 50 and 100, come from \<open>0 / n\<close> and
  \<open>n / n\<close> and are exact in binary64 as well. Strings are UTF-8 byte lists, so an accented
  letter or a pictograph is a short run of non-ASCII bytes; one well-formed string contains
  another in UTF-8 exactly when it does in UTF-16.
\<close>

subsection \<open>Pattern results and market noise (lines 145-154)\<close>

text \<open>One value of the \<open>detailedResults\<close> object: \<open>found\<close>, and the two optional scores.\<close>

record pattern_result =
  found :: bool
  buyScore :: "real option"
  sellScore :: "real option"

text \<open>
  \<open>detailedResults\<close> is an object keyed by indicator name; \<open>None\<close> stands for
  \<open>null\<close>/\<open>undefined\<close>. \<open>Object.values\<close> is \<open>map snd\<close>, \<open>Object.keys\<close> is \<open>map fst\<close>.
\<close>

type_synonym detailed_results = "(string \<times> pattern_result) list"

text \<open>
  JavaScript's \<open>x || d\<close> for an optional number \<open>x\<close>: \<open>undefined\<close> and \<open>0\<close> are falsy
  and give \<open>d\<close>, every other number gives itself. (\<open>NaN\<close>, falsy too, has no
  counterpart in \<open>real\<close>.)
\<close>

definition orDefault :: "real option \<Rightarrow> real \<Rightarrow> real" where
  "orDefault x d = (case x of None \<Rightarrow> d | Some v \<Rightarrow> if v = 0 then d else v)"

text \<open>
  Binary64 arithmetic: the result of an operation, and the value of a decimal literal, is
  the binary64 value nearest to the exact result, the one with the even significand when
  two are equally near. \<open>n\<close> is the magnitude in units of \<open>2^-1074\<close>, the spacing of the
  smallest binary64 values; a magnitude of more than 53 bits loses its \<open>k\<close> lowest bits.
  A result beyond the largest binary64 value stays a real here, where JavaScript gives
  \<open>Infinity\<close>; either is far above 0.3.
\<close>

definition roundHalfEven :: "real \<Rightarrow> int" where
  "roundHalfEven y =
     (let f = \<lfloor>y\<rfloor> in
      if y - of_int f < 1 / 2 then f
      else if 1 / 2 < y - of_int f then f + 1
      else if even f then f else f + 1)"

definition roundDouble :: "real \<Rightarrow> real" where
  "roundDouble x =
     (let n = \<lfloor>\<bar>x\<bar> * 2 ^ 1074\<rfloor>;
          k = nat (max 0 (bitlen n - 53))
      in sgn x * (of_int (roundHalfEven (\<bar>x\<bar> * 2 ^ 1074 / 2 ^ k)) * 2 ^ k / 2 ^ 1074))"

text \<open>
  The predicate of the second filter (line 150): the subtraction rounds, \<open>Math.abs\<close> and
  \<open><\<close> are exact, and \<open>0.3\<close> is the binary64 value of the literal.
\<close>

definition conflictingSignal :: "pattern_result \<Rightarrow> bool" where
  "conflictingSignal r \<longleftrightarrow>
     \<bar>roundDouble (orDefault (buyScore r) 0 - orDefault (sellScore r) 0)\<bar> < roundDouble (3 / 10)"

definition calculateMarketNoise :: "detailed_results option \<Rightarrow> real" where
  "calculateMarketNoise detailedResults =
     (case detailedResults of
        None \<Rightarrow> 50
      | Some d \<Rightarrow>
          (let patterns = filter found (map snd d);
               conflicting = length (filter conflictingSignal patterns)
           in min 100 (real conflicting / max 1 (real (length patterns)) * 100)))"

subsection \<open>The enhanced-analysis payload and the decision factors (lines 45-55)\<close>

text \<open>Payloads that the hook hands on without reading them are kept as JSON values.\<close>

datatype json =
  JNull | JBool bool | JNum real | JStr string | JArr "json list" | JObj "(string \<times> json) list"

record PriceAction =
  volatility :: "real option"

record VisualAnalysis =
  priceAction :: "PriceAction option"
  trendStrength :: "real option"

record EnhancedAnalysis =
  microPatterns :: "json list option"
  visualAnalysis :: "VisualAnalysis option"
  enh_timing :: "json option"

text \<open>
  Modelled from the spec: the type \<open>DecisionFactors\<close> is declared in
  utils/autonomousDecision, which is not among the sources; its fields are the five that
  the hook fills in. The field \<open>mc_volatility\<close> is \<open>market_conditions.volatility\<close>.
\<close>

record MarketConditions =
  mc_volatility :: real
  noise :: real
  trend_strength :: real

record DecisionFactors =
  micro_patterns :: "json list"
  visual_analysis :: VisualAnalysis
  market_conditions :: MarketConditions
  timing_analysis :: json
  technical_indicators :: "detailed_results option"

text \<open>
  The factors of lines 45-55. The effect reads \<open>enhancedAnalysisResult\<close> only after the
  guard of line 38, so the payload is an object here; \<open>{}\<close> is the object with every
  field absent.
\<close>

definition buildFactors :: "detailed_results option \<Rightarrow> EnhancedAnalysis \<Rightarrow> DecisionFactors" where
  "buildFactors detailedResults enhancedAnalysisResult =
     \<lparr> micro_patterns =
         (case microPatterns enhancedAnalysisResult of Some ps \<Rightarrow> ps | None \<Rightarrow> []),
       visual_analysis =
         (case visualAnalysis enhancedAnalysisResult of
            Some va \<Rightarrow> va
          | None \<Rightarrow> \<lparr> priceAction = None, trendStrength = None \<rparr>),
       market_conditions =
         \<lparr> mc_volatility =
             orDefault
               (case visualAnalysis enhancedAnalysisResult of
                  None \<Rightarrow> None
                | Some va \<Rightarrow> (case priceAction va of None \<Rightarrow> None | Some pa \<Rightarrow> volatility pa))
               50,
           noise = calculateMarketNoise detailedResults,
           trend_strength =
             orDefault
               (case visualAnalysis enhancedAnalysisResult of
                  None \<Rightarrow> None
                | Some va \<Rightarrow> trendStrength va)
               50 \<rparr>,
       timing_analysis =
         (case enh_timing enhancedAnalysisResult of Some t \<Rightarrow> t | None \<Rightarrow> JObj []),
       technical_indicators = detailedResults \<rparr>"

subsection \<open>Decisions, collaborators and notifications\<close>

text \<open>
  Modelled from the spec: the type \<open>AutonomousDecision\<close> is declared in
  utils/autonomousDecision, which is not among the sources. The numbers that the
  notification renders are integers here.
\<close>

datatype Action = BUY | SELL | WAIT

datatype MarketGrade = GradeA | GradeB | GradeC | GradeD

record Timing =
  enter_now :: bool
  wait_seconds :: int

record ProfessionalAnalysis =
  market_grade :: MarketGrade
  confluences :: int

record AutonomousDecision =
  action :: Action
  confidence :: int
  expected_success_rate :: int
  timing :: Timing
  professional_analysis :: ProfessionalAnalysis

text \<open>One element of \<open>fastAnalysisResults\<close>; the hook reads two of its fields.\<close>

record FastResult =
  direction :: string
  fr_confidence :: real

text \<open>
  The object passed to \<open>evaluateSignalRisk\<close> (lines 67-75): the decision's own fields
  (\<open>...decision\<close>) and six more.
\<close>

record RiskRequest =
  rq_decision :: AutonomousDecision
  rq_timeframe :: string
  entry_price :: real
  stop_loss :: real
  take_profit :: real
  rq_volatility :: real
  rq_confluences :: int

text \<open>One element of the array passed to \<open>performBacktest\<close> (lines 82-87).\<close>

record BacktestInput =
  bt_action :: Action
  bt_confidence :: real
  bt_confluences :: int
  bt_timeframe :: string

text \<open>
  \<open>currentRisk\<close> and \<open>positionSizing\<close> come from useAdvancedTrading, which is not among
  the sources. The hook only renders one field of each in a template literal; the field
  holds that rendered text.
\<close>

record CurrentRisk =
  totalRisk :: string

record PositionSizing =
  recommendedSize :: string

datatype Thrown = Thrown string

text \<open>
  What the hook closes over: the analyzer context and the collaborators of
  useAdvancedTrading and utils/autonomousDecision. A collaborator either throws
  (\<open>Inl\<close>) or returns (\<open>Inr\<close>); for \<open>performBacktest\<close>, which is awaited, \<open>Inl\<close> is
  a synchronous throw or a rejected promise.
\<close>

record Hook =
  selectedTimeframe :: string
  marketType :: string
  makeAutonomousDecision :: "DecisionFactors \<Rightarrow> string \<Rightarrow> string \<Rightarrow> Thrown + AutonomousDecision"
  evaluateSignalRisk :: "RiskRequest \<Rightarrow> Thrown + json"
  performBacktest :: "BacktestInput list \<Rightarrow> Thrown + unit"
  currentRisk :: "CurrentRisk option"
  positionSizing :: "PositionSizing option"

datatype Severity = Success | Info | Warning | Error

text \<open>A call of \<open>toast.success\<close>, \<open>toast.info\<close>, \<open>toast.warning\<close> or \<open>toast.error\<close>.\<close>

record Notification =
  severity :: Severity
  title :: string
  description :: "string option"
  duration :: "nat option"

text \<open>What a cycle does to the outside, in order. Console output is left out.\<close>

datatype Event =
    DecisionCall DecisionFactors string string
  | RiskCall RiskRequest
  | BacktestCall "BacktestInput list"
  | Toast Notification

record HookState =
  aiDecision :: "AutonomousDecision option"
  isProcessing :: bool

subsection \<open>Rendering (lines 93-133)\<close>

text \<open>A template literal renders an integral number as its decimal numeral.\<close>

fun showNat :: "nat \<Rightarrow> string" where
  "showNat n =
     (if n < 10 then [''0123456789'' ! n]
      else showNat (n div 10) @ [''0123456789'' ! (n mod 10)])"

declare showNat.simps [simp del]

definition showInt :: "int \<Rightarrow> string" where
  "showInt i = (if i < 0 then ''-'' @ showNat (nat (- i)) else showNat (nat i))"

definition gradeText :: "MarketGrade \<Rightarrow> string" where
  "gradeText g = (case g of GradeA \<Rightarrow> ''A'' | GradeB \<Rightarrow> ''B'' | GradeC \<Rightarrow> ''C'' | GradeD \<Rightarrow> ''D'')"

text \<open>The pictographs and accented letters of the messages, as UTF-8.\<close>

definition chartIncreasing :: string where
  "chartIncreasing = [CHR 0xF0, CHR 0x9F, CHR 0x93, CHR 0x88]"

definition chartDecreasing :: string where
  "chartDecreasing = [CHR 0xF0, CHR 0x9F, CHR 0x93, CHR 0x89]"

definition hourglass :: string where
  "hourglass = [CHR 0xE2, CHR 0x8F, CHR 0xB3]"

definition trophy :: string where
  "trophy = [CHR 0xF0, CHR 0x9F, CHR 0x8F, CHR 0x86]"

definition silverMedal :: string where
  "silverMedal = [CHR 0xF0, CHR 0x9F, CHR 0xA5, CHR 0x88]"

definition bronzeMedal :: string where
  "bronzeMedal = [CHR 0xF0, CHR 0x9F, CHR 0xA5, CHR 0x89]"

definition barChart :: string where
  "barChart = [CHR 0xF0, CHR 0x9F, CHR 0x93, CHR 0x8A]"

definition confianca :: string where
  "confianca = ''confian'' @ [CHR 0xC3, CHR 0xA7] @ ''a''"

definition condicoesNaoFavoraveis :: string where
  "condicoesNaoFavoraveis =
     ''Condi'' @ [CHR 0xC3, CHR 0xA7, CHR 0xC3, CHR 0xB5] @ ''es n'' @ [CHR 0xC3, CHR 0xA3]
       @ ''o favor'' @ [CHR 0xC3, CHR 0xA1] @ ''veis''"

definition timingOtimoEmBreve :: string where
  "timingOtimoEmBreve = ''Timing '' @ [CHR 0xC3, CHR 0xB3] @ ''timo em breve''"

definition erroNaAnalise :: string where
  "erroNaAnalise =
     ''Erro na an'' @ [CHR 0xC3, CHR 0xA1] @ ''lise aut'' @ [CHR 0xC3, CHR 0xB4] @ ''noma da IA''"

definition actionText :: "Action \<Rightarrow> string" where
  "actionText a = (if a = BUY then ''COMPRAR'' else if a = SELL then ''VENDER'' else ''AGUARDAR'')"

definition emoji :: "Action \<Rightarrow> string" where
  "emoji a = (if a = BUY then chartIncreasing else if a = SELL then chartDecreasing else hourglass)"

definition gradeEmoji :: "MarketGrade \<Rightarrow> string" where
  "gradeEmoji g =
     (if g = GradeA then trophy else if g = GradeB then silverMedal
      else if g = GradeC then bronzeMedal else barChart)"

definition riskInfo :: "Hook \<Rightarrow> string" where
  "riskInfo h = (case currentRisk h of Some r \<Rightarrow> '' | Risco: '' @ totalRisk r | None \<Rightarrow> [])"

definition positionInfo :: "Hook \<Rightarrow> string" where
  "positionInfo h =
     (case positionSizing h of Some p \<Rightarrow> '' | Size: '' @ recommendedSize p | None \<Rightarrow> [])"

text \<open>The notification of lines 93-133 for a computed decision.\<close>

definition presentDecision :: "Hook \<Rightarrow> AutonomousDecision \<Rightarrow> Notification" where
  "presentDecision h decision =
     (let grade = market_grade (professional_analysis decision) in
      if action decision \<noteq> WAIT then
        (if enter_now (timing decision) then
           \<lparr> severity = Success,
             title = emoji (action decision) @ '' IA DECIDE: '' @ actionText (action decision)
               @ '' AGORA! '' @ gradeEmoji grade @ '' Grade '' @ gradeText grade,
             description = Some (showInt (confidence decision) @ ''% '' @ confianca
               @ '' | Sucesso: '' @ showInt (expected_success_rate decision) @ ''%''
               @ riskInfo h @ positionInfo h),
             duration = Some 6000 \<rparr>
         else
           \<lparr> severity = Info,
             title = emoji (action decision) @ '' IA DECIDE: '' @ actionText (action decision)
               @ '' em '' @ showInt (wait_seconds (timing decision)) @ ''s ''
               @ gradeEmoji grade @ '' Grade '' @ gradeText grade,
             description = Some (showInt (confidence decision) @ ''% '' @ confianca @ '' | ''
               @ timingOtimoEmBreve @ riskInfo h),
             duration = Some 6000 \<rparr>)
      else
        \<lparr> severity = Warning,
          title = hourglass @ '' IA DECIDE: AGUARDAR '' @ gradeEmoji grade @ '' Grade ''
            @ gradeText grade,
          description = Some (showInt (confidence decision) @ ''% '' @ confianca @ '' | ''
            @ condicoesNaoFavoraveis),
          duration = Some 5000 \<rparr>)"

text \<open>The notification of the catch block (line 138).\<close>

definition errorNotification :: Notification where
  "errorNotification =
     \<lparr> severity = Error, title = erroNaAnalise, description = None, duration = None \<rparr>"

subsection \<open>The delayed decision (lines 60-140)\<close>

definition riskRequest :: "Hook \<Rightarrow> DecisionFactors \<Rightarrow> AutonomousDecision \<Rightarrow> RiskRequest" where
  "riskRequest h factors decision =
     \<lparr> rq_decision = decision,
       rq_timeframe = selectedTimeframe h,
       entry_price = 100,
       stop_loss = (if action decision = BUY then 98 else 102),
       take_profit = (if action decision = BUY then 104 else 96),
       rq_volatility = mc_volatility (market_conditions factors),
       rq_confluences = confluences (professional_analysis decision) \<rparr>"

definition backtestInput :: "Hook \<Rightarrow> FastResult \<Rightarrow> BacktestInput" where
  "backtestInput h result =
     \<lparr> bt_action =
         (if direction result = ''up'' then BUY
          else if direction result = ''down'' then SELL else WAIT),
       bt_confidence = fr_confidence result,
       bt_confluences = 2,
       bt_timeframe = selectedTimeframe h \<rparr>"

text \<open>
  Lines 66-78 and 81-88. Each step gives the calls it made and what it threw, if
  anything.
\<close>

definition riskStep :: "Hook \<Rightarrow> DecisionFactors \<Rightarrow> AutonomousDecision \<Rightarrow> Event list \<times> Thrown option" where
  "riskStep h factors decision =
     (if action decision \<noteq> WAIT then
        (case evaluateSignalRisk h (riskRequest h factors decision) of
           Inl e \<Rightarrow> ([RiskCall (riskRequest h factors decision)], Some e)
         | Inr riskAssessment \<Rightarrow> ([RiskCall (riskRequest h factors decision)], None))
      else ([], None))"

definition backtestStep :: "Hook \<Rightarrow> FastResult list \<Rightarrow> Event list \<times> Thrown option" where
  "backtestStep h fastAnalysisResults =
     (if length fastAnalysisResults > 5 then
        (case performBacktest h (map (backtestInput h) fastAnalysisResults) of
           Inl e \<Rightarrow> ([BacktestCall (map (backtestInput h) fastAnalysisResults)], Some e)
         | Inr u \<Rightarrow> ([BacktestCall (map (backtestInput h) fastAnalysisResults)], None))
      else ([], None))"

text \<open>
  The body of the \<open>try\<close> (lines 62-133): the state and the calls at the point where it
  ends, and the error if it ended by a throw.
\<close>

definition tryBlock ::
  "Hook \<Rightarrow> DecisionFactors \<Rightarrow> FastResult list \<Rightarrow> HookState \<Rightarrow> HookState \<times> Event list \<times> Thrown option" where
  "tryBlock h factors fastAnalysisResults st =
     (let call = DecisionCall factors (selectedTimeframe h) (marketType h) in
      case makeAutonomousDecision h factors (selectedTimeframe h) (marketType h) of
        Inl e \<Rightarrow> (st, [call], Some e)
      | Inr decision \<Rightarrow>
          (let st1 = st\<lparr>aiDecision := Some decision\<rparr> in
           case riskStep h factors decision of
             (ev2, Some e) \<Rightarrow> (st1, call # ev2, Some e)
           | (ev2, None) \<Rightarrow>
               (case backtestStep h fastAnalysisResults of
                  (ev3, Some e) \<Rightarrow> (st1, call # ev2 @ ev3, Some e)
                | (ev3, None) \<Rightarrow>
                    (st1\<lparr>isProcessing := False\<rparr>,
                     call # ev2 @ ev3 @ [Toast (presentDecision h decision)], None))))"

text \<open>The timer callback: the \<open>try\<close> and its \<open>catch\<close> (lines 135-139).\<close>

definition timeoutCallback ::
  "Hook \<Rightarrow> DecisionFactors \<Rightarrow> FastResult list \<Rightarrow> HookState \<Rightarrow> HookState \<times> Event list" where
  "timeoutCallback h factors fastAnalysisResults st =
     (case tryBlock h factors fastAnalysisResults st of
        (st', ev, None) \<Rightarrow> (st', ev)
      | (st', ev, Some e) \<Rightarrow> (st'\<lparr>isProcessing := False\<rparr>, ev @ [Toast errorNotification]))"

subsection \<open>The effect (lines 32-142)\<close>

text \<open>
  One run of the effect: the state it leaves and, when both guards pass, the factors
  captured by the callback it hands to \<open>setTimeout\<close>.
\<close>

definition effect ::
  "detailed_results option \<Rightarrow> EnhancedAnalysis option \<Rightarrow> HookState \<Rightarrow> HookState \<times> DecisionFactors option" where
  "effect detailedResults enhancedAnalysisResult st =
     (case detailedResults of
        None \<Rightarrow> (st, None)
      | Some d \<Rightarrow>
          if length (map fst d) = 0 then (st, None)
          else
            (case enhancedAnalysisResult of
               None \<Rightarrow> (st, None)
             | Some e \<Rightarrow>
                 if microPatterns e = None then (st, None)
                 else (st\<lparr>isProcessing := True\<rparr>, Some (buildFactors detailedResults e))))"

text \<open>
  A cycle: one run of the effect and, if it scheduled one, its timer callback, which runs
  once, 1500 ms later. The callback works on the values its closure captured; cycles that
  overlap in time are outside this model.
\<close>

definition runCycle ::
  "Hook \<Rightarrow> detailed_results option \<Rightarrow> EnhancedAnalysis option \<Rightarrow> FastResult list \<Rightarrow> HookState
     \<Rightarrow> HookState \<times> Event list" where
  "runCycle h detailedResults enhancedAnalysisResult fastAnalysisResults st =
     (case effect detailedResults enhancedAnalysisResult st of
        (st1, None) \<Rightarrow> (st1, [])
      | (st1, Some factors) \<Rightarrow> timeoutCallback h factors fastAnalysisResults st1)"

text \<open>The calls of one kind in a trace.\<close>

fun decisionCalls :: "Event list \<Rightarrow> (DecisionFactors \<times> string \<times> string) list" where
  "decisionCalls [] = []"
| "decisionCalls (DecisionCall f t m # evs) = (f, t, m) # decisionCalls evs"
| "decisionCalls (_ # evs) = decisionCalls evs"

fun riskCalls :: "Event list \<Rightarrow> RiskRequest list" where
  "riskCalls [] = []"
| "riskCalls (RiskCall r # evs) = r # riskCalls evs"
| "riskCalls (_ # evs) = riskCalls evs"

fun backtestCalls :: "Event list \<Rightarrow> BacktestInput list list" where
  "backtestCalls [] = []"
| "backtestCalls (BacktestCall b # evs) = b # backtestCalls evs"
| "backtestCalls (_ # evs) = backtestCalls evs"

fun toasts :: "Event list \<Rightarrow> Notification list" where
  "toasts [] = []"
| "toasts (Toast n # evs) = n # toasts evs"
| "toasts (_ # evs) = toasts evs"

section \<open>Sample inputs\<close>

text \<open>Concrete payloads and collaborators at which the properties below are evaluated.\<close>

definition sampleNotFound :: detailed_results where
  "sampleNotFound = [(''rsi'', \<lparr> found = False, buyScore = Some 0.875, sellScore = Some 0.125 \<rparr>)]"

definition sampleBalanced :: detailed_results where
  "sampleBalanced =
     [(''rsi'', \<lparr> found = True, buyScore = Some 0.625, sellScore = Some 0.5 \<rparr>),
      (''macd'', \<lparr> found = False, buyScore = Some 0.875, sellScore = None \<rparr>),
      (''ema'', \<lparr> found = True, buyScore = None, sellScore = Some 0.25 \<rparr>)]"

definition sampleUnscored :: pattern_result where
  "sampleUnscored = \<lparr> found = True, buyScore = None, sellScore = None \<rparr>"

text \<open>Sample decisions, collaborators that return or throw, hooks and payloads.\<close>

definition sampleDecision :: AutonomousDecision where
  "sampleDecision =
     \<lparr> action = BUY, confidence = 80, expected_success_rate = 72,
       timing = \<lparr> enter_now = True, wait_seconds = 0 \<rparr>,
       professional_analysis = \<lparr> market_grade = GradeA, confluences = 3 \<rparr> \<rparr>"

definition decides :: "AutonomousDecision \<Rightarrow> DecisionFactors \<Rightarrow> string \<Rightarrow> string \<Rightarrow> Thrown + AutonomousDecision" where
  "decides d factors timeframe market = Inr d"

definition decisionThrows :: "DecisionFactors \<Rightarrow> string \<Rightarrow> string \<Rightarrow> Thrown + AutonomousDecision" where
  "decisionThrows factors timeframe market = Inl (Thrown ''decision failed'')"

definition riskReturns :: "RiskRequest \<Rightarrow> Thrown + json" where
  "riskReturns request = Inr JNull"

definition riskThrows :: "RiskRequest \<Rightarrow> Thrown + json" where
  "riskThrows request = Inl (Thrown ''risk failed'')"

definition backtestReturns :: "BacktestInput list \<Rightarrow> Thrown + unit" where
  "backtestReturns signals = Inr ()"

definition backtestThrows :: "BacktestInput list \<Rightarrow> Thrown + unit" where
  "backtestThrows signals = Inl (Thrown ''backtest failed'')"

definition sampleHook :: Hook where
  "sampleHook =
     \<lparr> selectedTimeframe = ''1m'', marketType = ''otc'',
       makeAutonomousDecision = decides sampleDecision,
       evaluateSignalRisk = riskReturns,
       performBacktest = backtestReturns,
       currentRisk = None, positionSizing = None \<rparr>"

definition sampleWait :: AutonomousDecision where
  "sampleWait =
     \<lparr> action = WAIT, confidence = 35, expected_success_rate = 40,
       timing = \<lparr> enter_now = False, wait_seconds = 45 \<rparr>,
       professional_analysis = \<lparr> market_grade = GradeC, confluences = 1 \<rparr> \<rparr>"

definition hookDecisionThrows :: Hook where
  "hookDecisionThrows = sampleHook\<lparr>makeAutonomousDecision := decisionThrows\<rparr>"

definition hookRiskThrows :: Hook where
  "hookRiskThrows = sampleHook\<lparr>evaluateSignalRisk := riskThrows\<rparr>"

definition hookBacktestThrows :: Hook where
  "hookBacktestThrows = sampleHook\<lparr>performBacktest := backtestThrows\<rparr>"

definition sampleEnhanced :: EnhancedAnalysis where
  "sampleEnhanced =
     \<lparr> microPatterns = Some [],
       visualAnalysis =
         Some \<lparr> priceAction = Some \<lparr> volatility = Some 0 \<rparr>, trendStrength = Some 0 \<rparr>,
       enh_timing = None \<rparr>"

definition sampleNoPatterns :: EnhancedAnalysis where
  "sampleNoPatterns = \<lparr> microPatterns = None, visualAnalysis = None, enh_timing = None \<rparr>"

definition sampleIdle :: HookState where
  "sampleIdle = \<lparr> aiDecision = None, isProcessing = False \<rparr>"

definition sampleSettled :: HookState where
  "sampleSettled = \<lparr> aiDecision = Some sampleWait, isProcessing = False \<rparr>"

definition sampleFast :: "FastResult list" where
  "sampleFast =
     [\<lparr> direction = ''up'', fr_confidence = 70 \<rparr>, \<lparr> direction = ''down'', fr_confidence = 65 \<rparr>,
      \<lparr> direction = ''sideways'', fr_confidence = 50 \<rparr>, \<lparr> direction = ''up'', fr_confidence = 81 \<rparr>,
      \<lparr> direction = ''up'', fr_confidence = 77 \<rparr>, \<lparr> direction = ''down'', fr_confidence = 58 \<rparr>]"

section \<open>Properties\<close>

subsection \<open>Binary64 rounding\<close>

lemma roundDouble_zero: "roundDouble 0 = 0"
  by (simp add: roundDouble_def)

lemma bitlen_eqI:
  assumes "2 ^ b \<le> n" and "n < 2 ^ Suc b"
  shows "bitlen n = int (Suc b)"
proof -
  have pos: "0 < n"
    using assms(1) by (smt (verit) zero_less_power)
  have "bitlen n \<ge> 1"
    using pos by (auto simp: bitlen_alt_def)
  from bitlen_bounds [OF pos]
  have lo: "(2::int) ^ nat (bitlen n - 1) \<le> n" and hi: "n < 2 ^ nat (bitlen n)"
    by simp_all
  have "(2::int) ^ b < 2 ^ nat (bitlen n)"
    using assms(1) hi by linarith
  then have 1: "b < nat (bitlen n)"
    by (simp add: power_strict_increasing_iff)
  have "(2::int) ^ nat (bitlen n - 1) < 2 ^ Suc b"
    using assms(2) lo by linarith
  then have 2: "nat (bitlen n - 1) < Suc b"
    by (simp only: power_strict_increasing_iff one_less_numeral_iff semiring_norm)
  show ?thesis
    using 1 2 \<open>bitlen n \<ge> 1\<close> by linarith
qed

lemma roundDouble_scaled:
  assumes lo: "2 ^ 52 \<le> \<bar>x\<bar> * 2 ^ j" and hi: "\<bar>x\<bar> * 2 ^ j < 2 ^ 53" and j: "j \<le> 1074"
  shows "roundDouble x = sgn x * (of_int (roundHalfEven (\<bar>x\<bar> * 2 ^ j)) / 2 ^ j)"
proof -
  define m where "m = 1074 - j"
  define P where "P = (2::real) ^ 1074"
  define n where "n = \<lfloor>\<bar>x\<bar> * P\<rfloor>"
  have "1074 = j + m"
    using j by (simp add: m_def)
  then have split: "P = 2 ^ j * 2 ^ m"
    unfolding P_def by (simp only: power_add)
  have scaled: "\<bar>x\<bar> * P = (\<bar>x\<bar> * 2 ^ j) * 2 ^ m"
    by (simp add: split)
  have "of_int (2 ^ (52 + m)) \<le> \<bar>x\<bar> * P"
    using lo by (simp add: scaled power_add)
  then have n_lo: "2 ^ (52 + m) \<le> n"
    unfolding n_def by (simp only: le_floor_iff)
  have "\<bar>x\<bar> * P < of_int (2 ^ (53 + m))"
    using hi by (simp add: scaled power_add)
  then have n_hi: "n < 2 ^ Suc (52 + m)"
    unfolding n_def by (simp add: floor_less_iff)
  have "bitlen n = int (Suc (52 + m))"
    by (rule bitlen_eqI [OF n_lo n_hi])
  then have k: "nat (max 0 (bitlen n - 53)) = m"
    by simp
  have arg: "\<bar>x\<bar> * P / 2 ^ m = \<bar>x\<bar> * 2 ^ j"
    by (simp add: scaled)
  have unscale: "y * 2 ^ m / P = y / 2 ^ j" for y :: real
    by (simp add: split)
  have "roundDouble x =
      (let n = \<lfloor>\<bar>x\<bar> * P\<rfloor>; k = nat (max 0 (bitlen n - 53))
       in sgn x * (of_int (roundHalfEven (\<bar>x\<bar> * P / 2 ^ k)) * 2 ^ k / P))"
    unfolding P_def by (rule roundDouble_def)
  also have "\<dots> = sgn x * (of_int (roundHalfEven (\<bar>x\<bar> * 2 ^ j)) / 2 ^ j)"
    unfolding Let_def n_def [symmetric] k arg unscale ..
  finally show ?thesis .
qed

lemma threshold_value: "roundDouble (3 / 10) = 5404319552844595 / 18014398509481984"
  by (subst roundDouble_scaled [where j = 54]) (simp_all add: roundHalfEven_def)

text \<open>
  At the threshold the predicate follows the arithmetic of the code: \<open>0.7 - 0.4\<close> is
  \<open>0.29999999999999993\<close>, below \<open>0.3\<close>; \<open>0.3 - 0\<close> is not below \<open>0.3\<close>, although the
  binary64 value of \<open>0.3\<close> lies below three tenths; \<open>0.35 - 0.05\<close> rounds up to \<open>0.3\<close>.
\<close>

lemma literal_values:
  "roundDouble (7 / 10) = 3152519739159347 / 4503599627370496"
  "roundDouble (4 / 10) = 3602879701896397 / 9007199254740992"
  "roundDouble (35 / 100) = 3152519739159347 / 9007199254740992"
  "roundDouble (5 / 100) = 3602879701896397 / 72057594037927936"
  by (subst roundDouble_scaled [where j = 53], simp, simp, simp, simp add: roundHalfEven_def,
      subst roundDouble_scaled [where j = 54], simp, simp, simp, simp add: roundHalfEven_def,
      subst roundDouble_scaled [where j = 54], simp, simp, simp, simp add: roundHalfEven_def,
      subst roundDouble_scaled [where j = 57], simp, simp, simp, simp add: roundHalfEven_def)

lemma conflicting_07_04:
  "conflictingSignal
     \<lparr> found = True, buyScore = Some (roundDouble (7 / 10)), sellScore = Some (roundDouble (4 / 10)) \<rparr>"
proof -
  have "roundDouble (3152519739159347 / 4503599627370496 - 3602879701896397 / 9007199254740992)
      = 5404319552844594 / 18014398509481984"
    by (subst roundDouble_scaled [where j = 54]) (simp_all add: roundHalfEven_def)
  then show ?thesis
    unfolding conflictingSignal_def literal_values threshold_value
    by (simp add: orDefault_def)
qed

lemma not_conflicting_03:
  "\<not> conflictingSignal \<lparr> found = True, buyScore = Some (roundDouble (3 / 10)), sellScore = None \<rparr>"
proof -
  have "roundDouble (5404319552844595 / 18014398509481984) = 5404319552844595 / 18014398509481984"
    by (subst roundDouble_scaled [where j = 54]) (simp_all add: roundHalfEven_def)
  then show ?thesis
    unfolding conflictingSignal_def threshold_value
    by (simp add: orDefault_def)
qed

lemma not_conflicting_035_005:
  "\<not> conflictingSignal
     \<lparr> found = True, buyScore = Some (roundDouble (35 / 100)),
       sellScore = Some (roundDouble (5 / 100)) \<rparr>"
proof -
  have "roundDouble (3152519739159347 / 9007199254740992 - 3602879701896397 / 72057594037927936)
      = 5404319552844595 / 18014398509481984"
    by (subst roundDouble_scaled [where j = 54]) (simp_all add: roundHalfEven_def)
  then show ?thesis
    unfolding conflictingSignal_def literal_values threshold_value
    by (simp add: orDefault_def)
qed

lemma conflicting_small:
  "conflictingSignal \<lparr> found = True, buyScore = Some 0.625, sellScore = Some 0.5 \<rparr>"
  "conflictingSignal \<lparr> found = True, buyScore = None, sellScore = Some 0.25 \<rparr>"
proof -
  have "roundDouble (0.625 - 0.5) = 0.125"
    by (subst roundDouble_scaled [where j = 55]) (simp_all add: roundHalfEven_def)
  moreover have "roundDouble (0 - 0.25) = - 0.25"
    by (subst roundDouble_scaled [where j = 54]) (simp_all add: roundHalfEven_def)
  ultimately show
    "conflictingSignal \<lparr> found = True, buyScore = Some 0.625, sellScore = Some 0.5 \<rparr>"
    "conflictingSignal \<lparr> found = True, buyScore = None, sellScore = Some 0.25 \<rparr>"
    by (simp_all add: conflictingSignal_def orDefault_def threshold_value)
qed

lemma conflicting_unscored:
  assumes "buyScore r = None" and "sellScore r = None"
  shows "conflictingSignal r"
  using assms by (simp add: conflictingSignal_def orDefault_def roundDouble_zero threshold_value)

subsection \<open>Market noise\<close>

lemma noise_all_conflicting:
  assumes "filter found (map snd d) \<noteq> []"
    and "\<forall>r\<in>set (filter found (map snd d)). conflictingSignal r"
  shows "calculateMarketNoise (Some d) = 100"
proof -
  define ps where "ps = filter found (map snd d)"
  have all: "filter conflictingSignal ps = ps"
    using assms(2) unfolding ps_def by (simp only: filter_id_conv)
  have pos: "0 < length ps"
    using assms(1) unfolding ps_def by (metis length_greater_0_conv)
  have "calculateMarketNoise (Some d) =
      min 100 (real (length (filter conflictingSignal ps)) / max 1 (real (length ps)) * 100)"
    unfolding ps_def by (simp only: calculateMarketNoise_def Let_def option.case)
  also have "\<dots> = min 100 (real (length ps) / real (length ps) * 100)"
    using pos by (simp only: all max_def) (simp add: Suc_le_eq)
  also have "\<dots> = 100"
    using pos by simp
  finally show ?thesis .
qed

text \<open>
  C1, as stated, fails: a mapping that is present and has no \<open>found\<close> entry does not give
  50. Here the only entry is not found, and the noise is not 50.
\<close>

theorem noise_no_found_not_50:
  "filter found (map snd sampleNotFound) = [] \<and> calculateMarketNoise (Some sampleNotFound) \<noteq> 50"
  by (simp add: calculateMarketNoise_def sampleNotFound_def)

text \<open>
  C1, amended: when the input is null or absent the noise is exactly 50; for a mapping that
  is present and in which no entry has \<open>found\<close> true, the noise is exactly 0.
\<close>

theorem noise_without_found:
  "calculateMarketNoise None = 50 \<and>
   ((\<forall>r\<in>snd ` set d. \<not> found r) \<longrightarrow> calculateMarketNoise (Some d) = 0)"
proof -
  have "filter found (map snd d) = []" if "\<forall>r\<in>snd ` set d. \<not> found r"
    using that by (simp add: filter_empty_conv)
  then show ?thesis
    by (simp add: calculateMarketNoise_def)
qed

theorem noise_without_found_witness:
  "\<not> (\<exists>r\<in>snd ` set sampleNotFound. found r) \<and> calculateMarketNoise None = 50 \<and>
   calculateMarketNoise (Some sampleNotFound) = 0"
  using noise_without_found [of sampleNotFound] by (simp add: sampleNotFound_def)

text \<open>
  C7: for every mapping with a \<open>found\<close> entry in which every \<open>found\<close> entry has
  \<open>|buyScore - sellScore| < 0.3\<close>, a score defaulting to 0 when absent and the comparison
  being the one line 150 computes in binary64, the noise is 100. (A mapping without any
  \<open>found\<close> entry is the case of C1.)
\<close>

theorem noise_all_found_close:
  assumes "\<exists>r\<in>snd ` set d. found r"
    and "\<forall>r\<in>snd ` set d.
           found r \<longrightarrow>
           \<bar>roundDouble (orDefault (buyScore r) 0 - orDefault (sellScore r) 0)\<bar>
             < roundDouble (3 / 10)"
  shows "calculateMarketNoise (Some d) = 100"
proof (rule noise_all_conflicting)
  show "filter found (map snd d) \<noteq> []"
    using assms(1) by (auto simp: filter_empty_conv)
  show "\<forall>r\<in>set (filter found (map snd d)). conflictingSignal r"
    using assms(2) by (auto simp: conflictingSignal_def)
qed

theorem noise_all_found_close_witness:
  "(\<exists>r\<in>snd ` set sampleBalanced. found r) \<and>
   \<not> (\<exists>r\<in>snd ` set sampleBalanced.
        found r \<and>
        \<not> \<bar>roundDouble (orDefault (buyScore r) 0 - orDefault (sellScore r) 0)\<bar>
            < roundDouble (3 / 10)) \<and>
   calculateMarketNoise (Some sampleBalanced) = 100"
proof -
  have h1: "\<exists>r\<in>snd ` set sampleBalanced. found r"
    by (simp add: sampleBalanced_def)
  have h2: "\<forall>r\<in>snd ` set sampleBalanced.
      found r \<longrightarrow>
      \<bar>roundDouble (orDefault (buyScore r) 0 - orDefault (sellScore r) 0)\<bar> < roundDouble (3 / 10)"
    using conflicting_small by (simp add: sampleBalanced_def conflictingSignal_def)
  from h1 h2 noise_all_found_close [OF h1 h2] show ?thesis by blast
qed

text \<open>
  C10: an entry with \<open>found\<close> true and both scores absent passes the conflicting filter
  (both scores default to 0), in whatever mapping it occurs; and a mapping that such an
  entry belongs to and that consists only of such entries has noise 100.
\<close>

theorem noise_absent_scores_conflict:
  assumes "found r" and "buyScore r = None" and "sellScore r = None"
  shows "conflictingSignal r \<and>
    ((k, r) \<in> set d \<longrightarrow>
       r \<in> set (filter conflictingSignal (filter found (map snd d))) \<and>
       ((\<forall>r'\<in>snd ` set d. found r' \<and> buyScore r' = None \<and> sellScore r' = None) \<longrightarrow>
          calculateMarketNoise (Some d) = 100))"
proof (intro conjI impI)
  have c: "conflictingSignal r'" if "buyScore r' = None" "sellScore r' = None" for r'
    using that by (rule conflicting_unscored)
  show "conflictingSignal r"
    using assms by (simp add: c)
  assume mem: "(k, r) \<in> set d"
  then have r_in: "r \<in> snd ` set d"
    by (metis image_eqI snd_conv)
  have r_found: "r \<in> set (filter found (map snd d))"
    using r_in assms(1) by simp
  then show "r \<in> set (filter conflictingSignal (filter found (map snd d)))"
    using assms by (simp add: c)
  assume only: "\<forall>r'\<in>snd ` set d. found r' \<and> buyScore r' = None \<and> sellScore r' = None"
  show "calculateMarketNoise (Some d) = 100"
  proof (rule noise_all_conflicting)
    from r_found show "filter found (map snd d) \<noteq> []"
      by (metis empty_iff empty_set)
    from only show "\<forall>r\<in>set (filter found (map snd d)). conflictingSignal r"
      by (simp add: c)
  qed
qed

theorem noise_absent_scores_conflict_witness:
  "found sampleUnscored \<and> buyScore sampleUnscored = None \<and> sellScore sampleUnscored = None \<and>
   conflictingSignal sampleUnscored \<and>
   calculateMarketNoise (Some [(''rsi'', sampleUnscored), (''macd'', sampleUnscored)]) = 100"
proof -
  have h: "found sampleUnscored" "buyScore sampleUnscored = None" "sellScore sampleUnscored = None"
    by (simp_all add: sampleUnscored_def)
  show ?thesis
    using h noise_absent_scores_conflict
      [OF h, of "''rsi''" "[(''rsi'', sampleUnscored), (''macd'', sampleUnscored)]"]
    by simp
qed

subsection \<open>Traces of the timer callback\<close>

lemma decisionCalls_append: "decisionCalls (xs @ ys) = decisionCalls xs @ decisionCalls ys"
  by (induction xs rule: decisionCalls.induct) simp_all

lemma riskCalls_append: "riskCalls (xs @ ys) = riskCalls xs @ riskCalls ys"
  by (induction xs rule: riskCalls.induct) simp_all

lemma backtestCalls_append: "backtestCalls (xs @ ys) = backtestCalls xs @ backtestCalls ys"
  by (induction xs rule: backtestCalls.induct) simp_all

lemma toasts_append: "toasts (xs @ ys) = toasts xs @ toasts ys"
  by (induction xs rule: toasts.induct) simp_all

lemma riskStep_cases:
  "riskStep h f d =
     (if action d = WAIT then ([], None)
      else ([RiskCall (riskRequest h f d)],
            case evaluateSignalRisk h (riskRequest h f d) of Inl e \<Rightarrow> Some e | Inr a \<Rightarrow> None))"
  by (simp add: riskStep_def split: sum.splits)

lemma backtestStep_cases:
  "backtestStep h fast =
     (if 5 < length fast then
        ([BacktestCall (map (backtestInput h) fast)],
         case performBacktest h (map (backtestInput h) fast) of Inl e \<Rightarrow> Some e | Inr u \<Rightarrow> None)
      else ([], None))"
  by (simp add: backtestStep_def split: sum.splits)

lemma tryBlock_decision_throws:
  assumes "makeAutonomousDecision h f (selectedTimeframe h) (marketType h) = Inl e"
  shows "tryBlock h f fast st = (st, [DecisionCall f (selectedTimeframe h) (marketType h)], Some e)"
  using assms by (simp add: tryBlock_def)

lemma tryBlock_decided:
  assumes "makeAutonomousDecision h f (selectedTimeframe h) (marketType h) = Inr d"
  shows "tryBlock h f fast st =
     (case snd (riskStep h f d) of
        Some e \<Rightarrow> (st\<lparr>aiDecision := Some d\<rparr>,
                   DecisionCall f (selectedTimeframe h) (marketType h) # fst (riskStep h f d), Some e)
      | None \<Rightarrow>
          (case snd (backtestStep h fast) of
             Some e \<Rightarrow> (st\<lparr>aiDecision := Some d\<rparr>,
                        DecisionCall f (selectedTimeframe h) (marketType h) # fst (riskStep h f d)
                          @ fst (backtestStep h fast), Some e)
           | None \<Rightarrow> (st\<lparr>aiDecision := Some d, isProcessing := False\<rparr>,
                      DecisionCall f (selectedTimeframe h) (marketType h) # fst (riskStep h f d)
                        @ fst (backtestStep h fast) @ [Toast (presentDecision h d)], None)))"
proof -
  obtain ev2 r2 where r: "riskStep h f d = (ev2, r2)" by (cases "riskStep h f d")
  obtain ev3 r3 where b: "backtestStep h fast = (ev3, r3)" by (cases "backtestStep h fast")
  show ?thesis
    using assms by (simp add: tryBlock_def Let_def r b split: option.splits)
qed

lemma runCycle_scheduled:
  assumes "effect dr er st = (st1, Some f)"
  shows "runCycle h dr er fast st = timeoutCallback h f fast st1"
  using assms by (simp add: runCycle_def)

lemma effect_scheduled:
  assumes "effect dr er st = (st1, Some f)"
  shows "st1 = st\<lparr>isProcessing := True\<rparr>"
  using assms by (auto simp: effect_def split: option.splits if_splits)

lemma timeoutCallback_thrown:
  assumes "tryBlock h f fast st = (st', ev, Some e)"
  shows "timeoutCallback h f fast st = (st'\<lparr>isProcessing := False\<rparr>, ev @ [Toast errorNotification])"
  using assms by (simp add: timeoutCallback_def)

lemma timeoutCallback_completed:
  assumes "tryBlock h f fast st = (st', ev, None)"
  shows "timeoutCallback h f fast st = (st', ev)"
  using assms by (simp add: timeoutCallback_def)

lemma tryBlock_toasts:
  "toasts (fst (snd (tryBlock h f fast st))) =
     (case snd (snd (tryBlock h f fast st)) of
        Some e \<Rightarrow> []
      | None \<Rightarrow>
          (case makeAutonomousDecision h f (selectedTimeframe h) (marketType h) of
             Inl e \<Rightarrow> [] | Inr d \<Rightarrow> [presentDecision h d]))"
proof (cases "makeAutonomousDecision h f (selectedTimeframe h) (marketType h)")
  case (Inl e)
  then show ?thesis by (simp add: tryBlock_decision_throws)
next
  case (Inr d)
  show ?thesis
    by (simp add: tryBlock_decided [OF Inr] Inr riskStep_cases backtestStep_cases toasts_append
        split: option.splits sum.splits)
qed

lemma tryBlock_aiDecision:
  "aiDecision (fst (tryBlock h f fast st)) =
     (case makeAutonomousDecision h f (selectedTimeframe h) (marketType h) of
        Inl e \<Rightarrow> aiDecision st | Inr d \<Rightarrow> Some d)"
proof (cases "makeAutonomousDecision h f (selectedTimeframe h) (marketType h)")
  case (Inl e)
  then show ?thesis by (simp add: tryBlock_decision_throws)
next
  case (Inr d)
  show ?thesis
    by (simp add: tryBlock_decided [OF Inr] Inr split: option.splits)
qed

lemma tryBlock_riskCalls:
  "riskCalls (fst (snd (tryBlock h f fast st))) =
     (case makeAutonomousDecision h f (selectedTimeframe h) (marketType h) of
        Inl e \<Rightarrow> []
      | Inr d \<Rightarrow> if action d = WAIT then [] else [riskRequest h f d])"
proof (cases "makeAutonomousDecision h f (selectedTimeframe h) (marketType h)")
  case (Inl e)
  then show ?thesis by (simp add: tryBlock_decision_throws)
next
  case (Inr d)
  show ?thesis
    by (simp add: tryBlock_decided [OF Inr] Inr riskStep_cases backtestStep_cases riskCalls_append
        split: option.splits sum.splits)
qed

lemma tryBlock_backtestCalls:
  "backtestCalls (fst (snd (tryBlock h f fast st))) =
     (case makeAutonomousDecision h f (selectedTimeframe h) (marketType h) of
        Inl e \<Rightarrow> []
      | Inr d \<Rightarrow>
          (case snd (riskStep h f d) of
             Some e \<Rightarrow> []
           | None \<Rightarrow> if 5 < length fast then [map (backtestInput h) fast] else []))"
proof (cases "makeAutonomousDecision h f (selectedTimeframe h) (marketType h)")
  case (Inl e)
  then show ?thesis by (simp add: tryBlock_decision_throws)
next
  case (Inr d)
  show ?thesis
    by (simp add: tryBlock_decided [OF Inr] Inr riskStep_cases backtestStep_cases
        backtestCalls_append split: option.splits sum.splits)
qed

lemma timeoutCallback_calls:
  "riskCalls (snd (timeoutCallback h f fast st)) = riskCalls (fst (snd (tryBlock h f fast st)))"
  "backtestCalls (snd (timeoutCallback h f fast st)) =
     backtestCalls (fst (snd (tryBlock h f fast st)))"
  by (cases "tryBlock h f fast st" rule: prod_cases3;
      simp add: timeoutCallback_def riskCalls_append backtestCalls_append split: option.splits)+


lemma callback_delivers_presentDecision:
  assumes "makeAutonomousDecision h f (selectedTimeframe h) (marketType h) = Inr d"
    and "snd (snd (tryBlock h f fast st)) = None"
  shows "toasts (snd (timeoutCallback h f fast st)) = [presentDecision h d]"
proof -
  obtain st' ev where t: "tryBlock h f fast st = (st', ev, None)"
    using assms(2) by (cases "tryBlock h f fast st" rule: prod_cases3) simp
  have "toasts ev = [presentDecision h d]"
    using tryBlock_toasts [of h f fast st] assms(1) by (simp add: t)
  then show ?thesis
    by (simp add: timeoutCallback_completed [OF t])
qed

lemma sample_effect:
  "effect (Some sampleBalanced) (Some sampleEnhanced) st
     = (st\<lparr>isProcessing := True\<rparr>, Some (buildFactors (Some sampleBalanced) sampleEnhanced))"
  by (simp add: effect_def sampleBalanced_def sampleEnhanced_def)

lemma timeoutCallback_toasts_thrown:
  assumes "snd (snd (tryBlock h f fast st)) = Some e"
  shows "toasts (snd (timeoutCallback h f fast st)) = [errorNotification]"
    and "last (snd (timeoutCallback h f fast st)) = Toast errorNotification"
    and "isProcessing (fst (timeoutCallback h f fast st)) = False"
    and "aiDecision (fst (timeoutCallback h f fast st)) = aiDecision (fst (tryBlock h f fast st))"
proof -
  obtain st' ev where t: "tryBlock h f fast st = (st', ev, Some e)"
    using assms by (cases "tryBlock h f fast st" rule: prod_cases3) simp
  have "toasts ev = []"
    using tryBlock_toasts [of h f fast st] by (simp add: t)
  then show "toasts (snd (timeoutCallback h f fast st)) = [errorNotification]"
    by (simp add: timeoutCallback_thrown [OF t] toasts_append)
  show "last (snd (timeoutCallback h f fast st)) = Toast errorNotification"
    by (simp add: timeoutCallback_thrown [OF t])
  show "isProcessing (fst (timeoutCallback h f fast st)) = False"
    by (simp add: timeoutCallback_thrown [OF t])
  show "aiDecision (fst (timeoutCallback h f fast st)) = aiDecision (fst (tryBlock h f fast st))"
    by (simp add: timeoutCallback_thrown [OF t] t)
qed

lemma tryBlock_thrown:
  "snd (snd (tryBlock h f fast st)) =
     (case makeAutonomousDecision h f (selectedTimeframe h) (marketType h) of
        Inl e \<Rightarrow> Some e
      | Inr d \<Rightarrow>
          (case snd (riskStep h f d) of
             Some e \<Rightarrow> Some e
           | None \<Rightarrow> snd (backtestStep h fast)))"
proof (cases "makeAutonomousDecision h f (selectedTimeframe h) (marketType h)")
  case (Inl e)
  then show ?thesis by (simp add: tryBlock_decision_throws)
next
  case (Inr d)
  show ?thesis
    by (simp add: tryBlock_decided [OF Inr] Inr split: option.splits)
qed

subsection \<open>Gating\<close>

text \<open>
  C6: when the detailed results are absent or empty, or the enhanced analysis is absent or
  has no \<open>microPatterns\<close>, the effect returns at once: the state (\<open>isProcessing\<close> and the
  stored decision) is unchanged, no factors are built and nothing is scheduled, and the
  cycle makes no call at all, so the decision function is not invoked and no notification
  is delivered.
\<close>

theorem gated_update_idle:
  assumes "detailedResults = None \<or> detailedResults = Some [] \<or> enhancedAnalysisResult = None \<or>
    (\<exists>e. enhancedAnalysisResult = Some e \<and> microPatterns e = None)"
  shows "effect detailedResults enhancedAnalysisResult st = (st, None) \<and>
    runCycle h detailedResults enhancedAnalysisResult fastAnalysisResults st = (st, [])"
proof -
  have "effect detailedResults enhancedAnalysisResult st = (st, None)"
    using assms by (auto simp: effect_def split: option.splits)
  then show ?thesis
    by (simp add: runCycle_def)
qed

theorem gated_update_idle_witness:
  "effect (Some []) (Some sampleEnhanced) sampleSettled = (sampleSettled, None) \<and>
   runCycle sampleHook (Some []) (Some sampleEnhanced) sampleFast sampleSettled = (sampleSettled, []) \<and>
   microPatterns sampleNoPatterns = None \<and>
   effect (Some sampleBalanced) (Some sampleNoPatterns) sampleSettled = (sampleSettled, None) \<and>
   runCycle sampleHook (Some sampleBalanced) (Some sampleNoPatterns) sampleFast sampleSettled
     = (sampleSettled, [])"
proof -
  have m: "microPatterns sampleNoPatterns = None"
    by (simp add: sampleNoPatterns_def)
  show ?thesis
    using m
      gated_update_idle [of "Some []" "Some sampleEnhanced" sampleSettled sampleHook sampleFast]
      gated_update_idle [of "Some sampleBalanced" "Some sampleNoPatterns" sampleSettled
        sampleHook sampleFast]
    by simp
qed

subsection \<open>Factors\<close>

text \<open>
  C9: a \<open>volatility\<close> or \<open>trendStrength\<close> that is present and equal to 0 is replaced by
  the default 50 in the factors, as a missing one is.
\<close>

theorem zero_replaced_by_default:
  "(visualAnalysis e = Some va \<and> priceAction va = Some pa \<and> volatility pa = Some 0 \<longrightarrow>
      mc_volatility (market_conditions (buildFactors detailedResults e)) = 50) \<and>
   (visualAnalysis e = Some va \<and> trendStrength va = Some 0 \<longrightarrow>
      trend_strength (market_conditions (buildFactors detailedResults e)) = 50)"
  by (simp add: buildFactors_def orDefault_def)

theorem zero_replaced_by_default_witness:
  "visualAnalysis sampleEnhanced
     = Some \<lparr> priceAction = Some \<lparr> volatility = Some 0 \<rparr>, trendStrength = Some 0 \<rparr> \<and>
   mc_volatility (market_conditions (buildFactors (Some sampleBalanced) sampleEnhanced)) = 50 \<and>
   trend_strength (market_conditions (buildFactors (Some sampleBalanced) sampleEnhanced)) = 50"
  using zero_replaced_by_default
    [of sampleEnhanced "\<lparr> priceAction = Some \<lparr> volatility = Some 0 \<rparr>, trendStrength = Some 0 \<rparr>"
      "\<lparr> volatility = Some 0 \<rparr>" "Some sampleBalanced"]
  by (simp add: sampleEnhanced_def)

subsection \<open>Notifications\<close>

text \<open>
  The notification of a decision is \<open>presentDecision\<close>; by
  \<open>callback_delivers_presentDecision\<close> it is the one notification of a callback in which
  nothing throws.
\<close>

text \<open>
  C8: for every decision whose action is WAIT, whatever its confidence, the notification
  is a warning, its title contains the market grade, and its body contains the confidence
  and the fixed text that conditions are not favourable.
\<close>

theorem wait_is_warning:
  assumes "action d = WAIT"
  shows "severity (presentDecision h d) = Warning \<and>
    title (presentDecision h d) =
      hourglass @ '' IA DECIDE: AGUARDAR '' @ gradeEmoji (market_grade (professional_analysis d))
        @ '' Grade '' @ gradeText (market_grade (professional_analysis d)) \<and>
    sublist (gradeText (market_grade (professional_analysis d))) (title (presentDecision h d)) \<and>
    description (presentDecision h d) =
      Some (showInt (confidence d) @ ''% '' @ confianca @ '' | '' @ condicoesNaoFavoraveis) \<and>
    sublist (showInt (confidence d)) (the (description (presentDecision h d))) \<and>
    sublist condicoesNaoFavoraveis (the (description (presentDecision h d)))"
proof -
  let ?g = "market_grade (professional_analysis d)"
  have t: "title (presentDecision h d) =
      (hourglass @ '' IA DECIDE: AGUARDAR '' @ gradeEmoji ?g @ '' Grade '') @ gradeText ?g @ []"
    using assms by (simp add: presentDecision_def Let_def)
  have b: "description (presentDecision h d) =
      Some (showInt (confidence d) @ ''% '' @ confianca @ '' | '' @ condicoesNaoFavoraveis)"
    using assms by (simp add: presentDecision_def Let_def)
  have b1: "the (description (presentDecision h d)) =
      [] @ showInt (confidence d) @ (''% '' @ confianca @ '' | '' @ condicoesNaoFavoraveis)"
    by (simp add: b)
  have b2: "the (description (presentDecision h d)) =
      (showInt (confidence d) @ ''% '' @ confianca @ '' | '') @ condicoesNaoFavoraveis @ []"
    by (simp add: b)
  have "sublist (gradeText ?g) (title (presentDecision h d))"
    unfolding t by (rule sublist_appendI)
  moreover have "sublist (showInt (confidence d)) (the (description (presentDecision h d)))"
    unfolding b1 by (rule sublist_appendI)
  moreover have "sublist condicoesNaoFavoraveis (the (description (presentDecision h d)))"
    unfolding b2 by (rule sublist_appendI)
  moreover have "severity (presentDecision h d) = Warning"
    using assms by (simp add: presentDecision_def Let_def)
  ultimately show ?thesis
    using t b by simp
qed

theorem wait_is_warning_witness:
  "action sampleWait = WAIT \<and> severity (presentDecision sampleHook sampleWait) = Warning \<and>
   title (presentDecision sampleHook sampleWait)
     = hourglass @ '' IA DECIDE: AGUARDAR '' @ bronzeMedal @ '' Grade C'' \<and>
   description (presentDecision sampleHook sampleWait)
     = Some (''35% '' @ confianca @ '' | '' @ condicoesNaoFavoraveis)"
proof -
  have a: "action sampleWait = WAIT"
    by (simp add: sampleWait_def)
  have s: "showInt 35 = ''35''"
    by (simp add: showInt_def showNat.simps)
  have g: "market_grade (professional_analysis sampleWait) = GradeC" "confidence sampleWait = 35"
    by (simp_all add: sampleWait_def)
  show ?thesis
    using a wait_is_warning [OF a, of sampleHook]
    by (simp add: g s gradeEmoji_def gradeText_def)
qed


text \<open>
  C4, as stated, fails: for a decision with action BUY, confidence 80, \<open>enter_now\<close> true
  and grade A, the title contains neither "BUY" nor "NOW"; the labels of the hook are
  Portuguese.
\<close>

theorem buy_now_title_lacks_english:
  "action sampleDecision = BUY \<and> confidence sampleDecision = 80 \<and>
   enter_now (timing sampleDecision) \<and>
   market_grade (professional_analysis sampleDecision) = GradeA \<and>
   \<not> sublist ''BUY'' (title (presentDecision sampleHook sampleDecision)) \<and>
   \<not> sublist ''NOW'' (title (presentDecision sampleHook sampleDecision))"
  by code_simp

text \<open>
  C4, amended: for every decision with action BUY, confidence 80, \<open>enter_now\<close> true and
  market grade A, the notification has severity success, its title contains "COMPRAR",
  "AGORA" and the trophy, and its body contains "80".
\<close>

theorem buy_now_is_success:
  assumes "action d = BUY" and "confidence d = 80" and "enter_now (timing d)"
    and "market_grade (professional_analysis d) = GradeA"
  shows "severity (presentDecision h d) = Success \<and>
    title (presentDecision h d)
      = chartIncreasing @ '' IA DECIDE: COMPRAR AGORA! '' @ trophy @ '' Grade A'' \<and>
    sublist ''COMPRAR'' (title (presentDecision h d)) \<and>
    sublist ''AGORA'' (title (presentDecision h d)) \<and>
    sublist trophy (title (presentDecision h d)) \<and>
    sublist ''80'' (the (description (presentDecision h d)))"
proof -
  have s: "showInt 80 = ''80''"
    by (simp add: showInt_def showNat.simps)
  have sev: "severity (presentDecision h d) = Success"
    using assms by (simp add: presentDecision_def Let_def)
  have t: "title (presentDecision h d)
      = chartIncreasing @ '' IA DECIDE: COMPRAR AGORA! '' @ trophy @ '' Grade A''"
    using assms
    by (simp add: presentDecision_def Let_def emoji_def actionText_def gradeEmoji_def gradeText_def)
  have b: "the (description (presentDecision h d)) =
      [] @ ''80'' @ (''% '' @ confianca @ '' | Sucesso: '' @ showInt (expected_success_rate d)
        @ ''%'' @ riskInfo h @ positionInfo h)"
    using assms by (simp add: presentDecision_def Let_def s)
  have t1: "title (presentDecision h d)
      = (chartIncreasing @ '' IA DECIDE: '') @ ''COMPRAR'' @ ('' AGORA! '' @ trophy @ '' Grade A'')"
    by (simp add: t)
  have t2: "title (presentDecision h d)
      = (chartIncreasing @ '' IA DECIDE: COMPRAR '') @ ''AGORA'' @ (''! '' @ trophy @ '' Grade A'')"
    by (simp add: t)
  have t3: "title (presentDecision h d)
      = (chartIncreasing @ '' IA DECIDE: COMPRAR AGORA! '') @ trophy @ '' Grade A''"
    by (simp add: t)
  have "sublist ''COMPRAR'' (title (presentDecision h d))"
    unfolding t1 by (rule sublist_appendI)
  moreover have "sublist ''AGORA'' (title (presentDecision h d))"
    unfolding t2 by (rule sublist_appendI)
  moreover have "sublist trophy (title (presentDecision h d))"
    unfolding t3 by (rule sublist_appendI)
  moreover have "sublist ''80'' (the (description (presentDecision h d)))"
    unfolding b by (rule sublist_appendI)
  ultimately show ?thesis
    using sev t by simp
qed

theorem buy_now_is_success_witness:
  "action sampleDecision = BUY \<and> confidence sampleDecision = 80 \<and>
   enter_now (timing sampleDecision) \<and>
   market_grade (professional_analysis sampleDecision) = GradeA \<and>
   severity (presentDecision sampleHook sampleDecision) = Success \<and>
   sublist ''COMPRAR'' (title (presentDecision sampleHook sampleDecision)) \<and>
   sublist ''AGORA'' (title (presentDecision sampleHook sampleDecision)) \<and>
   sublist trophy (title (presentDecision sampleHook sampleDecision)) \<and>
   sublist ''80'' (the (description (presentDecision sampleHook sampleDecision)))"
proof -
  have h: "action sampleDecision = BUY" "confidence sampleDecision = 80"
    "enter_now (timing sampleDecision)"
    "market_grade (professional_analysis sampleDecision) = GradeA"
    by (simp_all add: sampleDecision_def)
  show ?thesis
    using h buy_now_is_success [OF h, of sampleHook] by blast
qed


subsection \<open>Errors\<close>

text \<open>
  C2, as stated, fails: when risk evaluation throws, the decision computed in this cycle
  has already been stored, so the stored decision is not the one from before the cycle.
\<close>

theorem enrichment_error_replaces_decision:
  "aiDecision sampleSettled = Some sampleWait \<and> sampleDecision \<noteq> sampleWait \<and>
   toasts (snd (runCycle hookRiskThrows (Some sampleBalanced) (Some sampleEnhanced) sampleFast
     sampleSettled)) = [errorNotification] \<and>
   aiDecision (fst (runCycle hookRiskThrows (Some sampleBalanced) (Some sampleEnhanced) sampleFast
     sampleSettled)) = Some sampleDecision"
proof -
  let ?f = "buildFactors (Some sampleBalanced) sampleEnhanced"
  let ?st = "sampleSettled\<lparr>isProcessing := True\<rparr>"
  have d: "makeAutonomousDecision hookRiskThrows ?f (selectedTimeframe hookRiskThrows)
      (marketType hookRiskThrows) = Inr sampleDecision"
    by (simp add: hookRiskThrows_def sampleHook_def decides_def)
  have a: "action sampleDecision = BUY"
    by (simp add: sampleDecision_def)
  have r: "riskStep hookRiskThrows ?f sampleDecision
      = ([RiskCall (riskRequest hookRiskThrows ?f sampleDecision)], Some (Thrown ''risk failed''))"
    by (simp add: riskStep_cases a) (simp add: hookRiskThrows_def riskThrows_def)
  have t: "tryBlock hookRiskThrows ?f sampleFast ?st
      = (?st\<lparr>aiDecision := Some sampleDecision\<rparr>,
         DecisionCall ?f (selectedTimeframe hookRiskThrows) (marketType hookRiskThrows)
           # [RiskCall (riskRequest hookRiskThrows ?f sampleDecision)],
         Some (Thrown ''risk failed''))"
    by (simp add: tryBlock_decided [OF d] r)
  have "sampleDecision \<noteq> sampleWait"
    by (simp add: sampleDecision_def sampleWait_def)
  then show ?thesis
    by (simp add: runCycle_scheduled [OF sample_effect] timeoutCallback_thrown [OF t])
      (simp add: sampleSettled_def)
qed

text \<open>
  C2, amended: for every cycle in which the decision function, risk evaluation or the
  backtest throws, the cycle ends with \<open>isProcessing\<close> false and the generic error
  notification is the only notification, delivered last; the stored decision equals its
  value before the cycle when the decision function threw, and is the newly computed
  decision when risk evaluation or the backtest threw.
\<close>

theorem error_cycle_outcome:
  assumes "effect detailedResults enhancedAnalysisResult st = (st1, Some factors)"
    and "makeAutonomousDecision h factors (selectedTimeframe h) (marketType h) = Inl e \<or>
      (makeAutonomousDecision h factors (selectedTimeframe h) (marketType h) = Inr decision \<and>
        action decision \<noteq> WAIT \<and>
        evaluateSignalRisk h (riskRequest h factors decision) = Inl e) \<or>
      (makeAutonomousDecision h factors (selectedTimeframe h) (marketType h) = Inr decision \<and>
        (action decision = WAIT \<or>
         evaluateSignalRisk h (riskRequest h factors decision) = Inr riskAssessment) \<and>
        5 < length fastAnalysisResults \<and>
        performBacktest h (map (backtestInput h) fastAnalysisResults) = Inl e)"
  shows "isProcessing (fst (runCycle h detailedResults enhancedAnalysisResult fastAnalysisResults st))
      = False \<and>
    toasts (snd (runCycle h detailedResults enhancedAnalysisResult fastAnalysisResults st))
      = [errorNotification] \<and>
    last (snd (runCycle h detailedResults enhancedAnalysisResult fastAnalysisResults st))
      = Toast errorNotification \<and>
    aiDecision (fst (runCycle h detailedResults enhancedAnalysisResult fastAnalysisResults st))
      = (case makeAutonomousDecision h factors (selectedTimeframe h) (marketType h) of
           Inl thrown \<Rightarrow> aiDecision st
         | Inr decision \<Rightarrow> Some decision)"
proof -
  have thrown: "snd (snd (tryBlock h factors fastAnalysisResults st1)) = Some e"
    using assms(2)
    by (auto simp: tryBlock_thrown riskStep_cases backtestStep_cases)
  have st1: "aiDecision st1 = aiDecision st"
    using effect_scheduled [OF assms(1)] by simp
  show ?thesis
    by (simp add: runCycle_scheduled [OF assms(1)] timeoutCallback_toasts_thrown [OF thrown]
        tryBlock_aiDecision st1 split: sum.splits)
qed

theorem error_cycle_outcome_witness:
  "isProcessing (fst (runCycle hookDecisionThrows (Some sampleBalanced) (Some sampleEnhanced)
     sampleFast sampleSettled)) = False \<and>
   toasts (snd (runCycle hookDecisionThrows (Some sampleBalanced) (Some sampleEnhanced)
     sampleFast sampleSettled)) = [errorNotification] \<and>
   aiDecision (fst (runCycle hookDecisionThrows (Some sampleBalanced) (Some sampleEnhanced)
     sampleFast sampleSettled)) = Some sampleWait \<and>
   isProcessing (fst (runCycle hookRiskThrows (Some sampleBalanced) (Some sampleEnhanced)
     sampleFast sampleIdle)) = False \<and>
   toasts (snd (runCycle hookRiskThrows (Some sampleBalanced) (Some sampleEnhanced)
     sampleFast sampleIdle)) = [errorNotification] \<and>
   aiDecision (fst (runCycle hookRiskThrows (Some sampleBalanced) (Some sampleEnhanced)
     sampleFast sampleIdle)) = Some sampleDecision \<and>
   isProcessing (fst (runCycle hookBacktestThrows (Some sampleBalanced) (Some sampleEnhanced)
     sampleFast sampleSettled)) = False \<and>
   toasts (snd (runCycle hookBacktestThrows (Some sampleBalanced) (Some sampleEnhanced)
     sampleFast sampleSettled)) = [errorNotification] \<and>
   aiDecision (fst (runCycle hookBacktestThrows (Some sampleBalanced) (Some sampleEnhanced)
     sampleFast sampleSettled)) = Some sampleDecision"
proof -
  let ?f = "buildFactors (Some sampleBalanced) sampleEnhanced"
  have d1: "makeAutonomousDecision hookDecisionThrows ?f (selectedTimeframe hookDecisionThrows)
      (marketType hookDecisionThrows) = Inl (Thrown ''decision failed'')"
    by (simp add: hookDecisionThrows_def sampleHook_def decisionThrows_def)
  have d2: "makeAutonomousDecision hookRiskThrows ?f (selectedTimeframe hookRiskThrows)
      (marketType hookRiskThrows) = Inr sampleDecision"
    by (simp add: hookRiskThrows_def sampleHook_def decides_def)
  have r2: "evaluateSignalRisk hookRiskThrows (riskRequest hookRiskThrows ?f sampleDecision)
      = Inl (Thrown ''risk failed'')"
    by (simp add: hookRiskThrows_def riskThrows_def)
  have d3: "makeAutonomousDecision hookBacktestThrows ?f (selectedTimeframe hookBacktestThrows)
      (marketType hookBacktestThrows) = Inr sampleDecision"
    by (simp add: hookBacktestThrows_def sampleHook_def decides_def)
  have r3: "evaluateSignalRisk hookBacktestThrows (riskRequest hookBacktestThrows ?f sampleDecision)
      = Inr JNull"
    by (simp add: hookBacktestThrows_def sampleHook_def riskReturns_def)
  have b3: "performBacktest hookBacktestThrows (map (backtestInput hookBacktestThrows) sampleFast)
      = Inl (Thrown ''backtest failed'')"
    by (simp add: hookBacktestThrows_def backtestThrows_def)
  have a: "action sampleDecision \<noteq> WAIT"
    by (simp add: sampleDecision_def)
  have n: "5 < length sampleFast"
    by (simp add: sampleFast_def)
  have s: "aiDecision sampleSettled = Some sampleWait"
    by (simp add: sampleSettled_def)
  have c1: "makeAutonomousDecision hookDecisionThrows ?f (selectedTimeframe hookDecisionThrows)
        (marketType hookDecisionThrows) = Inl (Thrown ''decision failed'') \<or>
      makeAutonomousDecision hookDecisionThrows ?f (selectedTimeframe hookDecisionThrows)
        (marketType hookDecisionThrows) = Inr sampleDecision \<and>
        action sampleDecision \<noteq> WAIT \<and>
        evaluateSignalRisk hookDecisionThrows (riskRequest hookDecisionThrows ?f sampleDecision)
          = Inl (Thrown ''decision failed'') \<or>
      makeAutonomousDecision hookDecisionThrows ?f (selectedTimeframe hookDecisionThrows)
        (marketType hookDecisionThrows) = Inr sampleDecision \<and>
        (action sampleDecision = WAIT \<or>
         evaluateSignalRisk hookDecisionThrows (riskRequest hookDecisionThrows ?f sampleDecision)
           = Inr JNull) \<and>
        5 < length sampleFast \<and>
        performBacktest hookDecisionThrows (map (backtestInput hookDecisionThrows) sampleFast)
          = Inl (Thrown ''decision failed'')"
    using d1 by simp
  have c2: "makeAutonomousDecision hookRiskThrows ?f (selectedTimeframe hookRiskThrows)
        (marketType hookRiskThrows) = Inl (Thrown ''risk failed'') \<or>
      makeAutonomousDecision hookRiskThrows ?f (selectedTimeframe hookRiskThrows)
        (marketType hookRiskThrows) = Inr sampleDecision \<and>
        action sampleDecision \<noteq> WAIT \<and>
        evaluateSignalRisk hookRiskThrows (riskRequest hookRiskThrows ?f sampleDecision)
          = Inl (Thrown ''risk failed'') \<or>
      makeAutonomousDecision hookRiskThrows ?f (selectedTimeframe hookRiskThrows)
        (marketType hookRiskThrows) = Inr sampleDecision \<and>
        (action sampleDecision = WAIT \<or>
         evaluateSignalRisk hookRiskThrows (riskRequest hookRiskThrows ?f sampleDecision)
           = Inr JNull) \<and>
        5 < length sampleFast \<and>
        performBacktest hookRiskThrows (map (backtestInput hookRiskThrows) sampleFast)
          = Inl (Thrown ''risk failed'')"
    using d2 r2 a by simp
  have c3: "makeAutonomousDecision hookBacktestThrows ?f (selectedTimeframe hookBacktestThrows)
        (marketType hookBacktestThrows) = Inl (Thrown ''backtest failed'') \<or>
      makeAutonomousDecision hookBacktestThrows ?f (selectedTimeframe hookBacktestThrows)
        (marketType hookBacktestThrows) = Inr sampleDecision \<and>
        action sampleDecision \<noteq> WAIT \<and>
        evaluateSignalRisk hookBacktestThrows (riskRequest hookBacktestThrows ?f sampleDecision)
          = Inl (Thrown ''backtest failed'') \<or>
      makeAutonomousDecision hookBacktestThrows ?f (selectedTimeframe hookBacktestThrows)
        (marketType hookBacktestThrows) = Inr sampleDecision \<and>
        (action sampleDecision = WAIT \<or>
         evaluateSignalRisk hookBacktestThrows (riskRequest hookBacktestThrows ?f sampleDecision)
           = Inr JNull) \<and>
        5 < length sampleFast \<and>
        performBacktest hookBacktestThrows (map (backtestInput hookBacktestThrows) sampleFast)
          = Inl (Thrown ''backtest failed'')"
    using d3 r3 b3 n by simp
  show ?thesis
    using error_cycle_outcome [OF sample_effect c1, of sampleSettled]
      error_cycle_outcome [OF sample_effect c2, of sampleIdle]
      error_cycle_outcome [OF sample_effect c3, of sampleSettled]
    by (simp add: d1 d2 d3 s)
qed

subsection \<open>Risk evaluation and backtest\<close>

text \<open>
  C3, as stated, fails: for a BUY decision the request has entry price 100 and take-profit
  104, which is 4% above the entry price, not 2%.
\<close>

theorem take_profit_is_four_percent:
  "action sampleDecision = BUY \<and>
   map entry_price (riskCalls (snd (runCycle sampleHook (Some sampleBalanced) (Some sampleEnhanced)
     sampleFast sampleIdle))) = [100] \<and>
   map take_profit (riskCalls (snd (runCycle sampleHook (Some sampleBalanced) (Some sampleEnhanced)
     sampleFast sampleIdle))) = [104] \<and>
   map take_profit (riskCalls (snd (runCycle sampleHook (Some sampleBalanced) (Some sampleEnhanced)
     sampleFast sampleIdle))) \<noteq> [100 + 2 / 100 * 100]"
proof -
  have d: "makeAutonomousDecision sampleHook f (selectedTimeframe sampleHook) (marketType sampleHook)
      = Inr sampleDecision" for f
    by (simp add: sampleHook_def decides_def)
  have a: "action sampleDecision = BUY"
    by (simp add: sampleDecision_def)
  show ?thesis
    by (simp add: runCycle_scheduled [OF sample_effect] timeoutCallback_calls tryBlock_riskCalls
        d a riskRequest_def)
qed

text \<open>
  C3, amended: for every computed decision whose action is not WAIT, risk evaluation is
  invoked exactly once, with entry price 100, the stop-loss 2% from the entry price and the
  take-profit 4% from it (BUY: stop below, take-profit above; SELL: the reverse); when the
  action is WAIT it is not invoked.
\<close>

theorem risk_evaluated_once:
  assumes "effect detailedResults enhancedAnalysisResult st = (st1, Some factors)"
    and "makeAutonomousDecision h factors (selectedTimeframe h) (marketType h) = Inr decision"
  shows "riskCalls (snd (runCycle h detailedResults enhancedAnalysisResult fastAnalysisResults st))
      = (if action decision = WAIT then [] else [riskRequest h factors decision]) \<and>
    entry_price (riskRequest h factors decision) = 100 \<and>
    (action decision = BUY \<longrightarrow>
       stop_loss (riskRequest h factors decision)
         = entry_price (riskRequest h factors decision)
             - 2 / 100 * entry_price (riskRequest h factors decision) \<and>
       take_profit (riskRequest h factors decision)
         = entry_price (riskRequest h factors decision)
             + 4 / 100 * entry_price (riskRequest h factors decision)) \<and>
    (action decision = SELL \<longrightarrow>
       stop_loss (riskRequest h factors decision)
         = entry_price (riskRequest h factors decision)
             + 2 / 100 * entry_price (riskRequest h factors decision) \<and>
       take_profit (riskRequest h factors decision)
         = entry_price (riskRequest h factors decision)
             - 4 / 100 * entry_price (riskRequest h factors decision))"
proof -
  have "riskCalls (snd (runCycle h detailedResults enhancedAnalysisResult fastAnalysisResults st))
      = (if action decision = WAIT then [] else [riskRequest h factors decision])"
    by (simp add: runCycle_scheduled [OF assms(1)] timeoutCallback_calls tryBlock_riskCalls assms(2))
  then show ?thesis
    by (simp add: riskRequest_def)
qed

theorem risk_evaluated_once_witness:
  "effect (Some sampleBalanced) (Some sampleEnhanced) sampleIdle
     = (sampleIdle\<lparr>isProcessing := True\<rparr>, Some (buildFactors (Some sampleBalanced) sampleEnhanced)) \<and>
   makeAutonomousDecision sampleHook (buildFactors (Some sampleBalanced) sampleEnhanced)
     (selectedTimeframe sampleHook) (marketType sampleHook) = Inr sampleDecision \<and>
   action sampleDecision = BUY \<and>
   riskCalls (snd (runCycle sampleHook (Some sampleBalanced) (Some sampleEnhanced) sampleFast
     sampleIdle))
     = [riskRequest sampleHook (buildFactors (Some sampleBalanced) sampleEnhanced) sampleDecision] \<and>
   stop_loss (riskRequest sampleHook (buildFactors (Some sampleBalanced) sampleEnhanced)
     sampleDecision) = 98 \<and>
   take_profit (riskRequest sampleHook (buildFactors (Some sampleBalanced) sampleEnhanced)
     sampleDecision) = 104"
proof -
  have d: "makeAutonomousDecision sampleHook (buildFactors (Some sampleBalanced) sampleEnhanced)
      (selectedTimeframe sampleHook) (marketType sampleHook) = Inr sampleDecision"
    by (simp add: sampleHook_def decides_def)
  have a: "action sampleDecision = BUY"
    by (simp add: sampleDecision_def)
  show ?thesis
    using risk_evaluated_once [OF sample_effect d, where st = sampleIdle
        and fastAnalysisResults = sampleFast]
      sample_effect [of sampleIdle] d a
    by simp
qed

text \<open>
  C5, as stated, fails: in a cycle with six fast-analysis results in which the decision
  function throws, the backtest is not invoked.
\<close>

theorem backtest_skipped_after_throw:
  "5 < length sampleFast \<and>
   toasts (snd (runCycle hookDecisionThrows (Some sampleBalanced) (Some sampleEnhanced) sampleFast
     sampleIdle)) = [errorNotification] \<and>
   backtestCalls (snd (runCycle hookDecisionThrows (Some sampleBalanced) (Some sampleEnhanced)
     sampleFast sampleIdle)) = []"
proof -
  have d: "makeAutonomousDecision hookDecisionThrows f (selectedTimeframe hookDecisionThrows)
      (marketType hookDecisionThrows) = Inl (Thrown ''decision failed'')" for f
    by (simp add: hookDecisionThrows_def sampleHook_def decisionThrows_def)
  have "5 < length sampleFast"
    by (simp add: sampleFast_def)
  then show ?thesis
    by (simp add: runCycle_scheduled [OF sample_effect] timeoutCallback_calls
        tryBlock_backtestCalls d timeoutCallback_thrown [OF tryBlock_decision_throws [OF d]])
qed

text \<open>
  C5, amended: for every cycle in which the decision function returns and risk evaluation,
  when invoked, does not throw, and whose fast-analysis sequence is longer than 5, the
  backtest is invoked exactly once with one mapped entry per element (direction up to BUY,
  down to SELL, otherwise WAIT; the element's confidence; confluences 2; the selected
  timeframe); for a sequence of length 5 or less it is not invoked at all.
\<close>

theorem backtest_once_when_reached:
  "(effect detailedResults enhancedAnalysisResult st = (st1, Some factors) \<and>
    makeAutonomousDecision h factors (selectedTimeframe h) (marketType h) = Inr decision \<and>
    (action decision \<noteq> WAIT \<longrightarrow>
       evaluateSignalRisk h (riskRequest h factors decision) = Inr riskAssessment) \<and>
    5 < length fastAnalysisResults \<longrightarrow>
      backtestCalls (snd (runCycle h detailedResults enhancedAnalysisResult fastAnalysisResults st))
        = [map (backtestInput h) fastAnalysisResults] \<and>
      length (map (backtestInput h) fastAnalysisResults) = length fastAnalysisResults) \<and>
   (direction result = ''up'' \<longrightarrow> bt_action (backtestInput h result) = BUY) \<and>
   (direction result = ''down'' \<longrightarrow> bt_action (backtestInput h result) = SELL) \<and>
   (direction result \<noteq> ''up'' \<and> direction result \<noteq> ''down'' \<longrightarrow>
      bt_action (backtestInput h result) = WAIT) \<and>
   bt_confidence (backtestInput h result) = fr_confidence result \<and>
   bt_confluences (backtestInput h result) = 2 \<and>
   bt_timeframe (backtestInput h result) = selectedTimeframe h \<and>
   (length fastAnalysisResults \<le> 5 \<longrightarrow>
      backtestCalls (snd (runCycle h detailedResults enhancedAnalysisResult fastAnalysisResults st))
        = [])"
proof -
  have reached:
    "backtestCalls (snd (runCycle h detailedResults enhancedAnalysisResult fastAnalysisResults st))
       = [map (backtestInput h) fastAnalysisResults]"
    if e: "effect detailedResults enhancedAnalysisResult st = (st1, Some factors)"
      and d: "makeAutonomousDecision h factors (selectedTimeframe h) (marketType h) = Inr decision"
      and r: "action decision \<noteq> WAIT \<longrightarrow>
        evaluateSignalRisk h (riskRequest h factors decision) = Inr riskAssessment"
      and n: "5 < length fastAnalysisResults"
  proof -
    have "snd (riskStep h factors decision) = None"
      using r by (simp add: riskStep_cases)
    then show ?thesis
      by (simp add: runCycle_scheduled [OF e] timeoutCallback_calls tryBlock_backtestCalls d n)
  qed
  have short:
    "backtestCalls (snd (runCycle h detailedResults enhancedAnalysisResult fastAnalysisResults st))
       = []"
    if n: "length fastAnalysisResults \<le> 5"
  proof (cases "snd (effect detailedResults enhancedAnalysisResult st)")
    case None
    then show ?thesis
      by (cases "effect detailedResults enhancedAnalysisResult st") (simp add: runCycle_def)
  next
    case (Some f)
    then obtain s where e: "effect detailedResults enhancedAnalysisResult st = (s, Some f)"
      by (cases "effect detailedResults enhancedAnalysisResult st") simp
    show ?thesis
      using n
      by (simp add: runCycle_scheduled [OF e] timeoutCallback_calls tryBlock_backtestCalls
          split: sum.splits option.splits)
  qed
  show ?thesis
    using reached short by (simp add: backtestInput_def)
qed

theorem backtest_once_when_reached_witness:
  "5 < length sampleFast \<and>
   backtestCalls (snd (runCycle sampleHook (Some sampleBalanced) (Some sampleEnhanced) sampleFast
     sampleIdle)) = [map (backtestInput sampleHook) sampleFast] \<and>
   length (map (backtestInput sampleHook) sampleFast) = 6 \<and>
   length (take 5 sampleFast) \<le> 5 \<and>
   backtestCalls (snd (runCycle sampleHook (Some sampleBalanced) (Some sampleEnhanced)
     (take 5 sampleFast) sampleIdle)) = []"
proof -
  let ?f = "buildFactors (Some sampleBalanced) sampleEnhanced"
  have d: "makeAutonomousDecision sampleHook ?f (selectedTimeframe sampleHook) (marketType sampleHook)
      = Inr sampleDecision"
    by (simp add: sampleHook_def decides_def)
  have r: "evaluateSignalRisk sampleHook (riskRequest sampleHook ?f sampleDecision) = Inr JNull"
    by (simp add: sampleHook_def riskReturns_def)
  have n: "5 < length sampleFast" "length sampleFast = 6"
    by (simp_all add: sampleFast_def)
  have m: "length (take 5 sampleFast) \<le> 5"
    by simp
  show ?thesis
    using n m d r sample_effect [of sampleIdle]
      backtest_once_when_reached [where detailedResults = "Some sampleBalanced"
        and enhancedAnalysisResult = "Some sampleEnhanced" and st = sampleIdle
        and ?st1.0 = "sampleIdle\<lparr>isProcessing := True\<rparr>" and factors = ?f and h = sampleHook
        and decision = sampleDecision and riskAssessment = JNull
        and fastAnalysisResults = sampleFast]
      backtest_once_when_reached [where detailedResults = "Some sampleBalanced"
        and enhancedAnalysisResult = "Some sampleEnhanced" and st = sampleIdle
        and ?st1.0 = "sampleIdle\<lparr>isProcessing := True\<rparr>" and factors = ?f and h = sampleHook
        and decision = sampleDecision and riskAssessment = JNull
        and fastAnalysisResults = "take 5 sampleFast"]
    by simp
qed

end
